theory Spec2Isabelle
  imports Main
begin

section \<open>Dates, times of day and the clock\<close>

text \<open>
  A \<open>date\<close> is the proleptic Gregorian ordinal of Python's \<open>date.toordinal()\<close>
  (day 1 is Monday, 0001-01-01). A time of day (\<open>datetime.time\<close>) is the number of
  microseconds since midnight, a naive \<open>datetime\<close> the number of microseconds since
  midnight of day 0, and a \<open>timedelta\<close> a number of microseconds. An instant of the
  clock (\<open>timezone.now()\<close>) is a naive datetime in UTC.
\<close>

type_synonym date = int
type_synonym time = int
type_synonym datetime = int

definition usec_per_minute :: int where
  "usec_per_minute = 60000000"

definition usec_per_day :: int where
  "usec_per_day = 1440 * usec_per_minute"

text \<open>\<open>timedelta(minutes=n)\<close>.\<close>

definition timedelta_minutes :: "int \<Rightarrow> int" where
  "timedelta_minutes n = n * usec_per_minute"


text \<open>\<open>time(hour, minute)\<close>: raises ValueError outside 0..23 and 0..59.\<close>

definition time_of :: "int \<Rightarrow> int \<Rightarrow> time option" where
  "time_of hour minute =
     (if 0 \<le> hour \<and> hour \<le> 23 \<and> 0 \<le> minute \<and> minute \<le> 59
      then Some ((hour * 60 + minute) * usec_per_minute) else None)"

text \<open>A time literal of the examples, \<open>hm 9 30\<close> for 09:30.\<close>

definition hm :: "int \<Rightarrow> int \<Rightarrow> time" where
  "hm hour minute = (hour * 60 + minute) * usec_per_minute"

text \<open>\<open>datetime.combine(date, t)\<close>, \<open>dt.date()\<close>, \<open>dt.time()\<close> and \<open>date.weekday()\<close>
  (Monday is 0).\<close>

definition combine :: "date \<Rightarrow> time \<Rightarrow> datetime" where
  "combine d t = d * usec_per_day + t"

definition date_of :: "datetime \<Rightarrow> date" where
  "date_of dt = dt div usec_per_day"

definition time_of_datetime :: "datetime \<Rightarrow> time" where
  "time_of_datetime dt = dt mod usec_per_day"

definition weekday :: "date \<Rightarrow> int" where
  "weekday d = (d + 6) mod 7"

text \<open>
  \<open>pytz.timezone('Asia/Kolkata')\<close>: the fixed offset +05:30 (India has had no other
  offset since 1945). \<open>astimezone_ist\<close> gives the wall clock of an instant,
  \<open>localize_ist\<close> the instant of a wall-clock reading.
\<close>

definition ist_offset :: int where
  "ist_offset = timedelta_minutes 330"

definition astimezone_ist :: "datetime \<Rightarrow> datetime" where
  "astimezone_ist now = now + ist_offset"

definition localize_ist :: "datetime \<Rightarrow> datetime" where
  "localize_ist dt = dt - ist_offset"

subsection \<open>strftime\<close>

definition two_digits :: "int \<Rightarrow> string" where
  "two_digits n = [''0123456789'' ! nat (n div 10), ''0123456789'' ! nat (n mod 10)]"

definition hour_of :: "time \<Rightarrow> int" where
  "hour_of t = t div (60 * usec_per_minute)"

definition minute_of :: "time \<Rightarrow> int" where
  "minute_of t = (t div usec_per_minute) mod 60"

text \<open>\<open>t.strftime('%H:%M')\<close>.\<close>

definition strftime_HM :: "time \<Rightarrow> string" where
  "strftime_HM t = two_digits (hour_of t) @ '':'' @ two_digits (minute_of t)"

text \<open>\<open>t.strftime('%I:%M %p')\<close>: the 12-hour clock, zero padded, then AM or PM.\<close>

definition strftime_IMp :: "time \<Rightarrow> string" where
  "strftime_IMp t =
     (let h = hour_of t;
          h12 = (if h mod 12 = 0 then 12 else h mod 12)
      in two_digits h12 @ '':'' @ two_digits (minute_of t) @ '' ''
         @ (if h < 12 then ''AM'' else ''PM''))"

section \<open>The data model\<close>

text \<open>\<open>ServiceProvider.PLAN_CHOICES\<close> and \<open>Appointment.STATUS_CHOICES\<close>.\<close>

datatype plan = free | pro

datatype status = pending | confirmed | completed | cancelled | no_show

text \<open>The fields of \<open>ServiceProvider\<close> that booking and usage tracking read or write.\<close>

record ServiceProvider =
  provider_pk :: nat
  unique_booking_url :: string
  is_active :: bool
  current_plan :: plan
  plan_end_date :: "date option"
  appointments_this_month :: int
  last_reset_date :: date

record Service =
  service_pk :: nat
  service_service_provider :: nat
  duration_minutes :: int

text \<open>\<open>Availability\<close>, the provider's default hours (related name \<open>availability_slots\<close>).\<close>

record Availability =
  availability_service_provider :: nat
  day_of_week :: int
  start_time :: time
  end_time :: time
  is_available :: bool

text \<open>\<open>ServiceAvailability\<close>, the hours of one service on one day of the week.\<close>

record ServiceAvailability =
  sa_service :: nat
  sa_day_of_week :: int
  sa_start_time :: time
  sa_end_time :: time
  sa_is_available :: bool

record Appointment =
  appointment_pk :: nat
  service_provider :: nat
  service :: nat
  appointment_date :: date
  appointment_time :: time
  status :: status

text \<open>The database: one list of rows per table.\<close>

record store =
  providers :: "ServiceProvider list"
  services :: "Service list"
  availabilities :: "Availability list"
  service_availabilities :: "ServiceAvailability list"
  appointments :: "Appointment list"

text \<open>\<open>settings.FREE_PLAN_APPOINTMENT_LIMIT\<close>.\<close>

definition FREE_PLAN_APPOINTMENT_LIMIT :: int where
  "FREE_PLAN_APPOINTMENT_LIMIT = 5"

section \<open>Slot generation (appointments/utils.py)\<close>

text \<open>
  \<open>provider.availability_slots.get(day_of_week=d, is_available=True)\<close>: the one matching
  row; \<open>DoesNotExist\<close> and \<open>MultipleObjectsReturned\<close> are both \<open>None\<close>, as the
  callers catch every exception alike.
\<close>

definition availability_slots_get :: "store \<Rightarrow> ServiceProvider \<Rightarrow> int \<Rightarrow> Availability option" where
  "availability_slots_get st provider dow =
     (case filter (\<lambda>a. availability_service_provider a = provider_pk provider
                        \<and> day_of_week a = dow \<and> is_available a) (availabilities st) of
        [a] \<Rightarrow> Some a
      | _ \<Rightarrow> None)"

text \<open>
  \<open>Appointment.objects.filter(service_provider=provider, appointment_date=date,
  appointment_time=slot_time, status__in=['pending', 'confirmed']).exists()\<close>.
\<close>

definition slot_is_booked :: "store \<Rightarrow> ServiceProvider \<Rightarrow> date \<Rightarrow> time \<Rightarrow> bool" where
  "slot_is_booked st provider d slot_time =
     (filter (\<lambda>a. service_provider a = provider_pk provider
                  \<and> appointment_date a = d
                  \<and> appointment_time a = slot_time
                  \<and> status a \<in> {pending, confirmed}) (appointments st) \<noteq> [])"

text \<open>One entry of the list \<open>get_available_slots\<close> returns.\<close>

record slot =
  slot_time_str :: string
  display :: string
  available :: bool
  is_past :: bool
  is_booked :: bool

text \<open>The body of the loop for a slot that fits: lines 66 to 89.\<close>

definition make_slot :: "store \<Rightarrow> ServiceProvider \<Rightarrow> date \<Rightarrow> datetime \<Rightarrow> time \<Rightarrow> slot" where
  "make_slot st provider d clock slot_time =
     (let is_past = (if d = date_of (astimezone_ist clock)
                     then localize_ist (combine d slot_time) < clock
                     else False);
          is_booked = slot_is_booked st provider d slot_time
      in \<lparr>slot_time_str = strftime_HM slot_time,
          display = strftime_IMp slot_time,
          available = (\<not> is_booked \<and> \<not> is_past),
          is_past = is_past,
          is_booked = is_booked\<rparr>)"

text \<open>
  The \<open>while current_time < end_time\<close> loop. \<open>clock\<close> is the instant
  \<open>timezone.now()\<close>, read once before the loop; \<open>now\<close> of the source is that
  instant shown in IST, so \<open>now.date()\<close> is \<open>date_of (astimezone_ist clock)\<close> and a
  comparison with \<open>now\<close> compares instants.
\<close>

function slot_loop ::
  "store \<Rightarrow> ServiceProvider \<Rightarrow> date \<Rightarrow> int \<Rightarrow> datetime \<Rightarrow> datetime \<Rightarrow> datetime
     \<Rightarrow> slot list \<Rightarrow> slot list" where
  "slot_loop st provider d service_duration clock end_dt current_time slots =
     (if current_time < end_dt then
        (let slot_end_time = current_time + timedelta_minutes service_duration;
             slots' = (if slot_end_time \<le> end_dt
                       then slots @ [make_slot st provider d clock (time_of_datetime current_time)]
                       else slots)
         in slot_loop st provider d service_duration clock end_dt
              (current_time + timedelta_minutes 30) slots')
      else slots)"
  by pat_completeness auto
termination
  by (relation "measure (\<lambda>(st, provider, d, service_duration, clock, end_dt, current_time, slots).
                           nat (end_dt - current_time))")
     (auto simp: timedelta_minutes_def usec_per_minute_def)

definition get_available_slots ::
  "store \<Rightarrow> datetime \<Rightarrow> ServiceProvider \<Rightarrow> Service \<Rightarrow> date \<Rightarrow> int \<Rightarrow> slot list" where
  "get_available_slots st clock provider svc d buffer_minutes =
     (let dow = weekday d in
      case availability_slots_get st provider dow of
        None \<Rightarrow> []
      | Some availability \<Rightarrow>
          (let service_duration = duration_minutes svc;
               total_slot_duration = service_duration + buffer_minutes;
               current_time = combine d (start_time availability);
               end_dt = combine d (end_time availability)
           in slot_loop st provider d service_duration clock end_dt current_time []))"

subsection \<open>Parsing the time string\<close>

text \<open>\<open>s.split(sep)\<close> for a one-character separator: never empty.\<close>

fun split_on :: "char \<Rightarrow> string \<Rightarrow> string list" where
  "split_on sep [] = [[]]"
| "split_on sep (c # cs) =
     (if c = sep then [] # split_on sep cs
      else (case split_on sep cs of
              [] \<Rightarrow> [[c]]
            | part # parts \<Rightarrow> (c # part) # parts))"

text \<open>
  \<open>int(s)\<close> on a string of ASCII characters: white space (the space and the
  characters 0x09 to 0x0D; not 0x1C to 0x1F, on which \<open>int\<close> raises) is stripped at
  both ends, then an optional sign, then decimal digits, where single underscores may
  stand between two digits. Anything else raises ValueError (\<open>None\<close>). Digits and
  spaces beyond ASCII, which Python also accepts, are outside this model.
\<close>

definition is_space :: "char \<Rightarrow> bool" where
  "is_space c \<longleftrightarrow> c \<in> set [CHR '' '', CHR 0x09, CHR 0x0A, CHR 0x0B, CHR 0x0C, CHR 0x0D]"

definition strip :: "string \<Rightarrow> string" where
  "strip s = rev (dropWhile is_space (rev (dropWhile is_space s)))"

definition digit_value :: "char \<Rightarrow> int option" where
  "digit_value c =
     map_of [(CHR ''0'', 0), (CHR ''1'', 1), (CHR ''2'', 2), (CHR ''3'', 3), (CHR ''4'', 4),
             (CHR ''5'', 5), (CHR ''6'', 6), (CHR ''7'', 7), (CHR ''8'', 8), (CHR ''9'', 9)] c"

text \<open>
  The digits after the sign, read left to right: \<open>acc\<close> is the value so far and
  \<open>after_digit\<close> tells whether the previous character was a digit (an underscore is
  allowed only then, and the string must end on a digit).
\<close>

fun int_digits :: "int \<Rightarrow> bool \<Rightarrow> string \<Rightarrow> int option" where
  "int_digits acc after_digit [] = (if after_digit then Some acc else None)"
| "int_digits acc after_digit (c # cs) =
     (if c = CHR ''_'' then (if after_digit then int_digits acc False cs else None)
      else (case digit_value c of
              None \<Rightarrow> None
            | Some v \<Rightarrow> int_digits (acc * 10 + v) True cs))"

definition py_int :: "string \<Rightarrow> int option" where
  "py_int s =
     (case strip s of
        [] \<Rightarrow> None
      | c # cs \<Rightarrow>
          (if c = CHR ''-'' then map_option uminus (int_digits 0 False cs)
           else if c = CHR ''+'' then int_digits 0 False cs
           else int_digits 0 False (c # cs)))"

text \<open>
  \<open>hour, minute = map(int, time_str.split(':'))\<close> and \<open>time(hour, minute)\<close>: the
  unpacking needs exactly two parts; every exception is caught by the caller.
\<close>

definition parse_time :: "string \<Rightarrow> time option" where
  "parse_time time_str =
     (case split_on CHR '':'' time_str of
        [h, m] \<Rightarrow>
          (case py_int h of
             None \<Rightarrow> None
           | Some hour \<Rightarrow>
               (case py_int m of
                  None \<Rightarrow> None
                | Some minute \<Rightarrow> time_of hour minute))
      | _ \<Rightarrow> None)"

subsection \<open>Checking one slot\<close>

text \<open>The dictionary \<open>{'available': ..., 'reason': ...}\<close> as a pair.\<close>

definition check_slot_availability ::
  "store \<Rightarrow> datetime \<Rightarrow> ServiceProvider \<Rightarrow> Service \<Rightarrow> date \<Rightarrow> string \<Rightarrow> bool \<times> string" where
  "check_slot_availability st clock provider svc d time_str =
     (case parse_time time_str of
        None \<Rightarrow> (False, ''Invalid time format'')
      | Some appt_time \<Rightarrow>
          (let now_date = date_of (astimezone_ist clock) in
           if d = now_date \<and> localize_ist (combine d appt_time) < clock
           then (False, ''Time slot is in the past'')
           else if d < now_date
           then (False, ''Date is in the past'')
           else
             (case availability_slots_get st provider (weekday d) of
                None \<Rightarrow> (False, ''Provider not available on this day'')
              | Some availability \<Rightarrow>
                  (if appt_time < start_time availability \<or> appt_time \<ge> end_time availability
                   then (False, ''Outside business hours'')
                   else
                     (let service_end = combine d appt_time
                                          + timedelta_minutes (duration_minutes svc);
                          closing_time = combine d (end_time availability)
                      in if service_end > closing_time
                         then (False, ''Service cannot be completed before closing time'')
                         else if slot_is_booked st provider d appt_time
                         then (False, ''Time slot already booked'')
                         else (True, ''Available''))))))"

section \<open>Usage limits (providers/models.py)\<close>

text \<open>\<open>timezone.now().date()\<close> is the date of the clock in UTC.\<close>

definition is_pro :: "datetime \<Rightarrow> ServiceProvider \<Rightarrow> bool" where
  "is_pro clock self =
     (if current_plan self = pro
      then (case plan_end_date self of
              None \<Rightarrow> True
            | Some e \<Rightarrow> e \<ge> date_of clock)
      else False)"

definition has_pro_features :: "datetime \<Rightarrow> ServiceProvider \<Rightarrow> bool" where
  "has_pro_features clock self = is_pro clock self"

definition can_create_appointment :: "datetime \<Rightarrow> ServiceProvider \<Rightarrow> bool" where
  "can_create_appointment clock self =
     (if has_pro_features clock self then True
      else appointments_this_month self < FREE_PLAN_APPOINTMENT_LIMIT)"

datatype error = DoesNotExist | IntegrityError | DatabaseError

text \<open>
  \<open>self.save(update_fields=[...])\<close> on a provider: an UPDATE of the row with the
  object's primary key, which raises DatabaseError when it touches no row. \<open>f\<close> copies the
  listed fields into the row.
\<close>

definition update_provider_row ::
  "store \<Rightarrow> nat \<Rightarrow> (ServiceProvider \<Rightarrow> ServiceProvider) \<Rightarrow> error + store" where
  "update_provider_row st pk f =
     (if list_ex (\<lambda>r. provider_pk r = pk) (providers st)
      then Inr (st\<lparr>providers := map (\<lambda>r. if provider_pk r = pk then f r else r) (providers st)\<rparr>)
      else Inl DatabaseError)"

definition increment_appointment_count :: "store \<Rightarrow> ServiceProvider \<Rightarrow> error + store" where
  "increment_appointment_count st self =
     (let n = appointments_this_month self + 1
      in update_provider_row st (provider_pk self) (\<lambda>r. r\<lparr>appointments_this_month := n\<rparr>))"

definition reset_monthly_counter :: "store \<Rightarrow> datetime \<Rightarrow> ServiceProvider \<Rightarrow> error + store" where
  "reset_monthly_counter st clock self =
     update_provider_row st (provider_pk self)
       (\<lambda>r. r\<lparr>appointments_this_month := 0, last_reset_date := date_of clock\<rparr>)"

section \<open>Appointments (appointments/models.py, appointments/signals.py)\<close>

text \<open>
  The \<open>post_save\<close> receiver of \<open>Appointment\<close>. \<open>instance.service_provider\<close> is read
  only when \<open>created\<close> holds: it is the object the instance was built with (\<open>cached\<close>)
  or, when none is cached, the row of the foreign key.
\<close>

definition increment_appointment_counter ::
  "store \<Rightarrow> Appointment \<Rightarrow> ServiceProvider option \<Rightarrow> bool \<Rightarrow> error + store" where
  "increment_appointment_counter st instance cached created =
     (if created then
        (case cached of
           Some provider \<Rightarrow> increment_appointment_count st provider
         | None \<Rightarrow>
             (case find (\<lambda>r. provider_pk r = service_provider instance) (providers st) of
                None \<Rightarrow> Inl DoesNotExist
              | Some provider \<Rightarrow> increment_appointment_count st provider))
      else Inr st)"

definition next_pk :: "Appointment list \<Rightarrow> nat" where
  "next_pk rows = Suc (fold max (map appointment_pk rows) 0)"

text \<open>
  \<open>Appointment.objects.create(service_provider=provider, service_id=..., ...)\<close>:
  \<open>save()\<close> reads \<open>self.service.price\<close> (DoesNotExist for an unknown service), the INSERT
  needs the provider's row (a foreign key) and gives the row a fresh key, and
  \<open>post_save\<close> is sent with \<open>created=True\<close>. Nothing else is checked.
\<close>

definition objects_create ::
  "store \<Rightarrow> ServiceProvider \<Rightarrow> nat \<Rightarrow> date \<Rightarrow> time \<Rightarrow> status \<Rightarrow> error + (Appointment \<times> store)" where
  "objects_create st provider service_id d t s =
     (if \<not> list_ex (\<lambda>r. service_pk r = service_id) (services st) then Inl DoesNotExist
      else if \<not> list_ex (\<lambda>r. provider_pk r = provider_pk provider) (providers st)
      then Inl IntegrityError
      else
        (let instance = \<lparr>appointment_pk = next_pk (appointments st),
                         service_provider = provider_pk provider,
                         service = service_id,
                         appointment_date = d,
                         appointment_time = t,
                         status = s\<rparr>;
             st1 = st\<lparr>appointments := appointments st @ [instance]\<rparr>
         in (case increment_appointment_counter st1 instance (Some provider) True of
               Inl e \<Rightarrow> Inl e
             | Inr st2 \<Rightarrow> Inr (instance, st2))))"

text \<open>
  \<open>self.save(update_fields=['status'])\<close> on an appointment: an UPDATE of the row with
  the object's key (DatabaseError when there is none), then \<open>post_save\<close> with
  \<open>created=False\<close>.
\<close>

definition save_status :: "store \<Rightarrow> Appointment \<Rightarrow> error + store" where
  "save_status st self =
     (if list_ex (\<lambda>r. appointment_pk r = appointment_pk self) (appointments st)
      then increment_appointment_counter
             (st\<lparr>appointments := map (\<lambda>r. if appointment_pk r = appointment_pk self
                                            then r\<lparr>status := status self\<rparr> else r)
                                      (appointments st)\<rparr>)
             self None False
      else Inl DatabaseError)"

text \<open>
  \<open>timezone.make_aware\<close> reads the wall clock in \<open>settings.TIME_ZONE\<close>, which is
  Asia/Kolkata.
\<close>

definition is_upcoming :: "datetime \<Rightarrow> Appointment \<Rightarrow> bool" where
  "is_upcoming clock self =
     (let appointment_datetime = localize_ist (combine (appointment_date self) (appointment_time self))
      in appointment_datetime > clock \<and> status self \<in> {pending, confirmed})"

definition appointment_is_past :: "datetime \<Rightarrow> Appointment \<Rightarrow> bool" where
  "appointment_is_past clock self =
     (let appointment_datetime = localize_ist (combine (appointment_date self) (appointment_time self))
      in appointment_datetime < clock)"

definition can_cancel :: "datetime \<Rightarrow> Appointment \<Rightarrow> bool" where
  "can_cancel clock self \<longleftrightarrow> status self \<in> {pending, confirmed} \<and> is_upcoming clock self"

text \<open>The three transitions return the flag, the object and the store.\<close>

definition cancel ::
  "store \<Rightarrow> datetime \<Rightarrow> Appointment \<Rightarrow> error + (bool \<times> Appointment \<times> store)" where
  "cancel st clock self =
     (if can_cancel clock self
      then (let self' = self\<lparr>status := cancelled\<rparr>
            in case save_status st self' of
                 Inl e \<Rightarrow> Inl e
               | Inr st' \<Rightarrow> Inr (True, self', st'))
      else Inr (False, self, st))"

definition confirm ::
  "store \<Rightarrow> datetime \<Rightarrow> Appointment \<Rightarrow> error + (bool \<times> Appointment \<times> store)" where
  "confirm st clock self =
     (if status self = pending
      then (let self' = self\<lparr>status := confirmed\<rparr>
            in case save_status st self' of
                 Inl e \<Rightarrow> Inl e
               | Inr st' \<Rightarrow> Inr (True, self', st'))
      else Inr (False, self, st))"

definition complete ::
  "store \<Rightarrow> datetime \<Rightarrow> Appointment \<Rightarrow> error + (bool \<times> Appointment \<times> store)" where
  "complete st clock self =
     (if status self = confirmed \<and> appointment_is_past clock self
      then (let self' = self\<lparr>status := completed\<rparr>
            in case save_status st self' of
                 Inl e \<Rightarrow> Inl e
               | Inr st' \<Rightarrow> Inr (True, self', st'))
      else Inr (False, self, st))"

section \<open>The booking views\<close>

text \<open>
  What the views read of a request: the user (\<open>None\<close> when not authenticated; a
  provider user carries the key of its \<open>provider_profile\<close>, if it has one), the method,
  and the posted service, date and time after the model fields have converted them.
\<close>

record user =
  user_is_provider :: bool
  user_provider_profile :: "nat option"

record request =
  req_user :: "user option"
  req_is_post :: bool
  post_service :: nat
  post_appointment_date :: date
  post_appointment_time :: time

datatype response =
    RedirectLogin
  | RedirectSetupProfile
  | RedirectUpgradePrompt
  | RedirectPublicBooking
  | RedirectBookingSuccess nat
  | RedirectAppointmentDetail nat
  | RenderCreateAppointment
  | Http404
  | ServerError error

text \<open>\<open>get_object_or_404(ServiceProvider, unique_booking_url=slug, is_active=True)\<close>.\<close>

definition get_provider_or_404 :: "store \<Rightarrow> string \<Rightarrow> ServiceProvider option" where
  "get_provider_or_404 st slug =
     (case filter (\<lambda>r. unique_booking_url r = slug \<and> is_active r) (providers st) of
        [provider] \<Rightarrow> Some provider
      | _ \<Rightarrow> None)"

text \<open>\<open>confirm_booking\<close> of appointments/views.py, the public booking.\<close>

definition confirm_booking :: "store \<Rightarrow> datetime \<Rightarrow> request \<Rightarrow> string \<Rightarrow> response \<times> store" where
  "confirm_booking st clock req slug =
     (case req_user req of
        None \<Rightarrow> (RedirectLogin, st)
      | Some u \<Rightarrow>
          (case get_provider_or_404 st slug of
             None \<Rightarrow> (Http404, st)
           | Some provider \<Rightarrow>
               (if req_is_post req then
                  (case objects_create st provider (post_service req)
                          (post_appointment_date req) (post_appointment_time req) pending of
                     Inl e \<Rightarrow> (ServerError e, st)
                   | Inr (appointment, st') \<Rightarrow>
                       (RedirectBookingSuccess (appointment_pk appointment), st'))
                else (RedirectPublicBooking, st))))"

text \<open>
  \<open>create_appointment\<close> of providers/views.py, the provider's walk-in booking, under its
  decorators \<open>login_required\<close>, \<open>provider_required\<close> and \<open>check_appointment_limit\<close>.
\<close>

definition create_appointment :: "store \<Rightarrow> datetime \<Rightarrow> request \<Rightarrow> response \<times> store" where
  "create_appointment st clock req =
     (case req_user req of
        None \<Rightarrow> (RedirectLogin, st)
      | Some u \<Rightarrow>
          (if \<not> user_is_provider u then (RedirectLogin, st)
           else
             (case (case user_provider_profile u of
                      None \<Rightarrow> None
                    | Some pk \<Rightarrow> find (\<lambda>r. provider_pk r = pk) (providers st)) of
                None \<Rightarrow> (RedirectSetupProfile, st)
              | Some provider \<Rightarrow>
                  (if \<not> can_create_appointment clock provider then (RedirectUpgradePrompt, st)
                   else if req_is_post req then
                     (case objects_create st provider (post_service req)
                             (post_appointment_date req) (post_appointment_time req) confirmed of
                        Inl e \<Rightarrow> (ServerError e, st)
                      | Inr (appointment, st') \<Rightarrow>
                          (RedirectAppointmentDetail (appointment_pk appointment), st'))
                   else (RenderCreateAppointment, st)))))"

section \<open>The monthly reset (subscriptions/management/commands/reset_monthly_limits.py)\<close>

text \<open>
  The loop of \<open>Command.handle\<close> over the providers the query returned, carrying the
  store and \<open>reset_count\<close>.
\<close>

fun reset_loop ::
  "datetime \<Rightarrow> ServiceProvider list \<Rightarrow> store \<Rightarrow> nat \<Rightarrow> error + (nat \<times> store)" where
  "reset_loop clock [] st reset_count = Inr (reset_count, st)"
| "reset_loop clock (provider # rest) st reset_count =
     (case reset_monthly_counter st clock provider of
        Inl e \<Rightarrow> Inl e
      | Inr st' \<Rightarrow> reset_loop clock rest st' (reset_count + 1))"

definition handle :: "store \<Rightarrow> datetime \<Rightarrow> error + (nat \<times> store)" where
  "handle st clock =
     (let active_providers = filter is_active (providers st)
      in reset_loop clock active_providers st 0)"

section \<open>Notions the properties are stated with\<close>

text \<open>
  The start times the loop of \<open>get_available_slots\<close> walks through: from the opening
  time in steps of 30 minutes, as long as they lie before the closing time.
\<close>

function candidate_starts :: "datetime \<Rightarrow> datetime \<Rightarrow> datetime list" where
  "candidate_starts current_time end_dt =
     (if current_time < end_dt
      then current_time # candidate_starts (current_time + timedelta_minutes 30) end_dt
      else [])"
  by pat_completeness auto
termination
  by (relation "measure (\<lambda>(current_time, end_dt). nat (end_dt - current_time))")
     (auto simp: timedelta_minutes_def usec_per_minute_def)




text \<open>The row of a provider after \<open>reset_monthly_counter\<close>.\<close>

definition reset_row :: "datetime \<Rightarrow> ServiceProvider \<Rightarrow> ServiceProvider" where
  "reset_row clock r = r\<lparr>appointments_this_month := 0, last_reset_date := date_of clock\<rparr>"

subsection \<open>The validation of a candidate as the specification composes it\<close>

text \<open>
  The specification names the reasons \<open>INVALID_FORMAT\<close>, \<open>PAST_DATE\<close>, \<open>PAST_TIME\<close>,
  \<open>CLOSED_DAY\<close>, \<open>OUTSIDE_HOURS\<close>, \<open>EXCEEDS_CLOSING\<close>, \<open>SLOT_TAKEN\<close> and \<open>OK\<close>;
  \<open>reason_text\<close> is the message the code gives for each.
\<close>

datatype reason =
  INVALID_FORMAT | PAST_DATE | PAST_TIME | CLOSED_DAY | OUTSIDE_HOURS | EXCEEDS_CLOSING
  | SLOT_TAKEN | OK

fun reason_text :: "reason \<Rightarrow> string" where
  "reason_text INVALID_FORMAT = ''Invalid time format''"
| "reason_text PAST_DATE = ''Date is in the past''"
| "reason_text PAST_TIME = ''Time slot is in the past''"
| "reason_text CLOSED_DAY = ''Provider not available on this day''"
| "reason_text OUTSIDE_HOURS = ''Outside business hours''"
| "reason_text EXCEEDS_CLOSING = ''Service cannot be completed before closing time''"
| "reason_text SLOT_TAKEN = ''Time slot already booked''"
| "reason_text OK = ''Available''"

text \<open>The reason of the first check that does not pass, \<open>OK\<close> when all pass.\<close>

fun first_failing :: "(bool \<times> reason) list \<Rightarrow> reason" where
  "first_failing [] = OK"
| "first_failing ((passes, r) # checks) = (if passes then first_failing checks else r)"

text \<open>
  The checks in the order of the specification: time format, past date and past time,
  open day, within hours, service fits before closing, conflict. A check that needs the
  parsed time or the hours of the day passes when an earlier check has already failed
  to provide them.
\<close>

definition validate_candidate ::
  "store \<Rightarrow> datetime \<Rightarrow> ServiceProvider \<Rightarrow> Service \<Rightarrow> date \<Rightarrow> string \<Rightarrow> reason" where
  "validate_candidate st clock provider svc d time_str =
     (let parsed = parse_time time_str;
          today = date_of (astimezone_ist clock);
          hours = availability_slots_get st provider (weekday d)
      in first_failing
           [(parsed \<noteq> None, INVALID_FORMAT),
            (\<not> d < today, PAST_DATE),
            (case parsed of
               None \<Rightarrow> True
             | Some t \<Rightarrow> \<not> (d = today \<and> localize_ist (combine d t) < clock), PAST_TIME),
            (hours \<noteq> None, CLOSED_DAY),
            (case (parsed, hours) of
               (Some t, Some a) \<Rightarrow> start_time a \<le> t \<and> t < end_time a
             | _ \<Rightarrow> True, OUTSIDE_HOURS),
            (case (parsed, hours) of
               (Some t, Some a) \<Rightarrow>
                 combine d t + timedelta_minutes (duration_minutes svc) \<le> combine d (end_time a)
             | _ \<Rightarrow> True, EXCEEDS_CLOSING),
            (case parsed of
               None \<Rightarrow> True
             | Some t \<Rightarrow> \<not> slot_is_booked st provider d t, SLOT_TAKEN)])"

subsection \<open>A small database for the examples\<close>

text \<open>
  A salon on the FREE plan that has used its five appointments of the month, open on
  Mondays 09:00 to 17:00 and on Tuesdays 09:00 to 18:00, with one service of 60 minutes
  that has its own Tuesday hours 10:00 to 14:00; and a deactivated provider. Day 739257
  is Monday 2025-01-06, day 739258 the Tuesday after; the clock reads 2025-01-01 00:00
  UTC and, for a look back, 2025-02-01 00:00 UTC.
\<close>

definition ex_salon :: ServiceProvider where
  "ex_salon = \<lparr>provider_pk = 1, unique_booking_url = ''salon'', is_active = True,
                current_plan = free, plan_end_date = None,
                appointments_this_month = 5, last_reset_date = 739221\<rparr>"

definition ex_closed :: ServiceProvider where
  "ex_closed = \<lparr>provider_pk = 2, unique_booking_url = ''closed'', is_active = False,
                 current_plan = free, plan_end_date = None,
                 appointments_this_month = 5, last_reset_date = 739221\<rparr>"

definition ex_service :: Service where
  "ex_service = \<lparr>service_pk = 1, service_service_provider = 1, duration_minutes = 60\<rparr>"

definition ex_store :: store where
  "ex_store =
     \<lparr>providers = [ex_salon, ex_closed],
      services = [ex_service],
      availabilities =
        [\<lparr>availability_service_provider = 1, day_of_week = 0,
          start_time = hm 9 0, end_time = hm 17 0, is_available = True\<rparr>,
         \<lparr>availability_service_provider = 1, day_of_week = 1,
          start_time = hm 9 0, end_time = hm 18 0, is_available = True\<rparr>],
      service_availabilities =
        [\<lparr>sa_service = 1, sa_day_of_week = 1,
          sa_start_time = hm 10 0, sa_end_time = hm 14 0, sa_is_available = True\<rparr>],
      appointments = []\<rparr>"

definition ex_monday :: date where
  "ex_monday = 739257"

definition ex_tuesday :: date where
  "ex_tuesday = 739258"

definition ex_clock :: datetime where
  "ex_clock = combine 739252 0"

definition ex_clock_later :: datetime where
  "ex_clock_later = combine 739283 0"

text \<open>A logged-in client posting a booking of the service for Monday 10:00.\<close>

definition ex_request :: request where
  "ex_request = \<lparr>req_user = Some \<lparr>user_is_provider = False, user_provider_profile = None\<rparr>,
                  req_is_post = True, post_service = 1,
                  post_appointment_date = ex_monday, post_appointment_time = hm 10 0\<rparr>"

text \<open>The salon's owner posting the same booking as a walk-in.\<close>

definition ex_owner_request :: request where
  "ex_owner_request = ex_request\<lparr>req_user := Some \<lparr>user_is_provider = True,
                                                     user_provider_profile = Some 1\<rparr>\<rparr>"

text \<open>
  The database after that booking and the monthly reset that follows it, in which the
  salon's row is \<open>ex_salon_reset\<close>; and the client and the owner posting a booking of
  Monday 11:00.
\<close>

definition ex_salon_reset :: ServiceProvider where
  "ex_salon_reset = ex_salon\<lparr>appointments_this_month := 0, last_reset_date := 739252\<rparr>"

definition ex_rebooked_store :: store where
  "ex_rebooked_store =
     ex_store\<lparr>providers := [ex_salon_reset, ex_closed],
              appointments := [\<lparr>appointment_pk = 1, service_provider = 1, service = 1,
                                appointment_date = ex_monday, appointment_time = hm 10 0,
                                status = pending\<rparr>]\<rparr>"



text \<open>The database after the first booking alone, and a completed appointment.\<close>

definition ex_booked_store :: store where
  "ex_booked_store = snd (confirm_booking ex_store ex_clock ex_request ''salon'')"

definition ex_completed :: Appointment where
  "ex_completed = \<lparr>appointment_pk = 7, service_provider = 1, service = 1,
                    appointment_date = 739250, appointment_time = hm 10 0,
                    status = completed\<rparr>"

section \<open>Properties of slot generation\<close>

declare candidate_starts.simps [simp del]
declare slot_loop.simps [simp del]

subsection \<open>The loop of get_available_slots\<close>

lemma slot_loop_candidates:
  "slot_loop st provider d dur clock end_dt cur slots =
     slots @ map (\<lambda>c. make_slot st provider d clock (time_of_datetime c))
               (filter (\<lambda>c. c + timedelta_minutes dur \<le> end_dt) (candidate_starts cur end_dt))"
proof (induction st provider d dur clock end_dt cur slots rule: slot_loop.induct)
  case (1 st provider d dur clock end_dt cur slots)
  show ?case
  proof (cases "cur < end_dt")
    case False
    then show ?thesis
      by (simp add: slot_loop.simps [of _ _ _ _ _ end_dt cur] candidate_starts.simps [of cur])
  next
    case True
    then show ?thesis
      using "1.IH" [OF True refl refl]
      by (simp add: slot_loop.simps [of _ _ _ _ _ end_dt cur] candidate_starts.simps [of cur] Let_def)
  qed
qed












text \<open>
  Claim C7. \<open>get_available_slots\<close> returns the same list for any two values of
  \<open>buffer_minutes\<close>: the parameter changes neither which slots are generated nor their
  spacing nor their flags.
\<close>

theorem buffer_minutes_has_no_effect:
  "get_available_slots st clock provider svc d b1 = get_available_slots st clock provider svc d b2"
  by (simp add: get_available_slots_def Let_def split: option.split)

theorem buffer_minutes_example:
  "get_available_slots ex_store ex_clock ex_salon ex_service ex_monday 0
     = get_available_slots ex_store ex_clock ex_salon ex_service ex_monday 120"
  using buffer_minutes_has_no_effect [of ex_store ex_clock ex_salon ex_service ex_monday 0 120]
  by simp

lemma get_available_slots_make_slot:
  "s \<in> set (get_available_slots st clock provider svc d buffer_minutes) \<Longrightarrow>
     \<exists>t. s = make_slot st provider d clock t"
  by (auto simp: get_available_slots_def Let_def slot_loop_candidates split: option.splits)

text \<open>
  Claim C10. For a date before the current date in IST, no slot of
  \<open>get_available_slots\<close> has \<open>is_past\<close> set, since the check runs only when the date is
  today; so each slot is available unless an active appointment of the provider has its
  date and time, which is what \<open>is_booked\<close> records.
\<close>

theorem past_date_slots_never_marked_past:
  assumes past: "d < date_of (astimezone_ist clock)"
    and s: "s \<in> set (get_available_slots st clock provider svc d buffer_minutes)"
  shows "\<not> is_past s \<and> (available s \<longleftrightarrow> \<not> is_booked s)
         \<and> (\<exists>t. slot_time_str s = strftime_HM t \<and> is_booked s = slot_is_booked st provider d t)"
proof -
  from get_available_slots_make_slot [OF s] obtain t
    where t: "s = make_slot st provider d clock t" by blast
  from past have "d \<noteq> date_of (astimezone_ist clock)" by simp
  with t show ?thesis by (auto simp: make_slot_def Let_def)
qed

theorem past_date_slots_example:
  "ex_monday < date_of (astimezone_ist ex_clock_later)
   \<and> make_slot ex_booked_store ex_salon ex_monday ex_clock_later (hm 10 0)
       \<in> set (get_available_slots ex_booked_store ex_clock_later ex_salon ex_service ex_monday 15)
   \<and> \<not> is_past (make_slot ex_booked_store ex_salon ex_monday ex_clock_later (hm 10 0))
   \<and> (available (make_slot ex_booked_store ex_salon ex_monday ex_clock_later (hm 10 0))
        \<longleftrightarrow> \<not> is_booked (make_slot ex_booked_store ex_salon ex_monday ex_clock_later (hm 10 0)))"
proof -
  have past: "ex_monday < date_of (astimezone_ist ex_clock_later)" by code_simp
  have s: "make_slot ex_booked_store ex_salon ex_monday ex_clock_later (hm 10 0)
       \<in> set (get_available_slots ex_booked_store ex_clock_later ex_salon ex_service ex_monday 15)"
    by code_simp
  show ?thesis
    using past s past_date_slots_never_marked_past [OF past s] by simp
qed

section \<open>Properties of the slot check\<close>

text \<open>
  Claim C6. \<open>check_slot_availability\<close> answers with the reason of the first check that
  fails in the order time format, past date or time, open day, within hours, service
  fits before closing, conflict; its reason is the message of one of the eight reasons;
  it answers available exactly when every check passes. It is a function of the store
  and the clock and returns no store: it writes nothing.
\<close>

theorem check_slot_availability_first_failing_reason:
  "check_slot_availability st clock provider svc d time_str =
     (validate_candidate st clock provider svc d time_str = OK,
      reason_text (validate_candidate st clock provider svc d time_str))
   \<and> (fst (check_slot_availability st clock provider svc d time_str) \<longleftrightarrow>
        (\<exists>t a. parse_time time_str = Some t
           \<and> \<not> d < date_of (astimezone_ist clock)
           \<and> \<not> (d = date_of (astimezone_ist clock) \<and> localize_ist (combine d t) < clock)
           \<and> availability_slots_get st provider (weekday d) = Some a
           \<and> start_time a \<le> t \<and> t < end_time a
           \<and> combine d t + timedelta_minutes (duration_minutes svc) \<le> combine d (end_time a)
           \<and> \<not> slot_is_booked st provider d t))"
  by (auto simp: check_slot_availability_def validate_candidate_def Let_def
           split: option.splits)

theorem check_slot_availability_example:
  "check_slot_availability ex_booked_store ex_clock ex_salon ex_service ex_monday ''16:30''
     = (False, ''Service cannot be completed before closing time'')
   \<and> validate_candidate ex_booked_store ex_clock ex_salon ex_service ex_monday ''16:30''
       = EXCEEDS_CLOSING"
proof -
  have "validate_candidate ex_booked_store ex_clock ex_salon ex_service ex_monday ''16:30''
       = EXCEEDS_CLOSING" by code_simp
  with check_slot_availability_first_failing_reason
         [of ex_booked_store ex_clock ex_salon ex_service ex_monday "''16:30''"]
  show ?thesis by simp
qed

section \<open>Properties of the appointment life cycle\<close>

text \<open>
  Claim C5. On an appointment that is completed, cancelled or a no-show, \<open>cancel\<close>,
  \<open>confirm\<close> and \<open>complete\<close> return False and leave the appointment and the store as
  they are; \<open>cancel\<close> fails on a completed and \<open>complete\<close> on a pending appointment; and
  each of the three returns False without any change whenever its guard does not hold
  (pending for \<open>confirm\<close>; pending or confirmed and in the future for \<open>cancel\<close>;
  confirmed and in the past for \<open>complete\<close>).
\<close>

theorem terminal_status_and_failed_guards:
  "(status a \<in> {completed, cancelled, no_show} \<longrightarrow>
      cancel st clock a = Inr (False, a, st)
      \<and> confirm st clock a = Inr (False, a, st)
      \<and> complete st clock a = Inr (False, a, st))
   \<and> (status a = completed \<longrightarrow> cancel st clock a = Inr (False, a, st))
   \<and> (status a = pending \<longrightarrow> complete st clock a = Inr (False, a, st))
   \<and> (status a \<noteq> pending \<longrightarrow> confirm st clock a = Inr (False, a, st))
   \<and> (\<not> (status a \<in> {pending, confirmed}
          \<and> localize_ist (combine (appointment_date a) (appointment_time a)) > clock) \<longrightarrow>
        cancel st clock a = Inr (False, a, st))
   \<and> (\<not> (status a = confirmed
          \<and> localize_ist (combine (appointment_date a) (appointment_time a)) < clock) \<longrightarrow>
        complete st clock a = Inr (False, a, st))"
  by (auto simp: cancel_def confirm_def complete_def can_cancel_def is_upcoming_def
                 appointment_is_past_def Let_def)

theorem terminal_status_example:
  "status ex_completed \<in> {completed, cancelled, no_show}
   \<and> cancel ex_booked_store ex_clock ex_completed = Inr (False, ex_completed, ex_booked_store)
   \<and> confirm ex_booked_store ex_clock ex_completed = Inr (False, ex_completed, ex_booked_store)
   \<and> complete ex_booked_store ex_clock ex_completed = Inr (False, ex_completed, ex_booked_store)"
proof -
  have c: "status ex_completed = completed"
    by (simp add: ex_completed_def)
  then have t: "status ex_completed \<in> {completed, cancelled, no_show}"
    by simp
  from terminal_status_and_failed_guards [of ex_completed ex_booked_store ex_clock] t
  have "cancel ex_booked_store ex_clock ex_completed = Inr (False, ex_completed, ex_booked_store)
        \<and> confirm ex_booked_store ex_clock ex_completed = Inr (False, ex_completed, ex_booked_store)
        \<and> complete ex_booked_store ex_clock ex_completed = Inr (False, ex_completed, ex_booked_store)"
    by blast
  with t show ?thesis by blast
qed

section \<open>Properties of appointment creation and usage counting\<close>

lemma increment_appointment_count_Inr:
  "list_ex (\<lambda>r. provider_pk r = provider_pk provider) (providers st) \<Longrightarrow>
     increment_appointment_count st provider =
       Inr (st\<lparr>providers := map (\<lambda>r. if provider_pk r = provider_pk provider
                                       then r\<lparr>appointments_this_month :=
                                                appointments_this_month provider + 1\<rparr>
                                       else r) (providers st)\<rparr>)"
  by (simp add: increment_appointment_count_def update_provider_row_def Let_def)

lemma objects_create_Inr:
  assumes "list_ex (\<lambda>r. service_pk r = service_id) (services st)"
    and "list_ex (\<lambda>r. provider_pk r = provider_pk provider) (providers st)"
  shows "objects_create st provider service_id d t s =
           Inr (\<lparr>appointment_pk = next_pk (appointments st),
                 service_provider = provider_pk provider, service = service_id,
                 appointment_date = d, appointment_time = t, status = s\<rparr>,
                st\<lparr>appointments := appointments st @
                       [\<lparr>appointment_pk = next_pk (appointments st),
                         service_provider = provider_pk provider, service = service_id,
                         appointment_date = d, appointment_time = t, status = s\<rparr>],
                   providers := map (\<lambda>r. if provider_pk r = provider_pk provider
                                          then r\<lparr>appointments_this_month :=
                                                   appointments_this_month provider + 1\<rparr>
                                          else r) (providers st)\<rparr>)"
  using assms
  by (simp add: objects_create_def Let_def increment_appointment_counter_def
                increment_appointment_count_Inr)

lemma objects_create_cases:
  "objects_create st provider service_id d t s = Inr (a, st') \<Longrightarrow>
     list_ex (\<lambda>r. service_pk r = service_id) (services st)
     \<and> list_ex (\<lambda>r. provider_pk r = provider_pk provider) (providers st)"
  by (auto simp: objects_create_def split: if_splits)

lemma save_status_providers:
  "save_status st x = Inr st' \<Longrightarrow> providers st' = providers st"
  by (auto simp: save_status_def increment_appointment_counter_def split: if_splits)

lemma same_pk_same_row:
  "distinct (map provider_pk rows) \<Longrightarrow> p \<in> set rows \<Longrightarrow> r \<in> set rows \<Longrightarrow>
     provider_pk r = provider_pk p \<Longrightarrow> r = p"
  by (meson distinct_map inj_on_def)

text \<open>
  Claim C9. Creating an appointment for a provider as loaded from the database, with any
  status, any plan and no quota check, succeeds when the service exists, adds one row and
  raises \<open>appointments_this_month\<close> of the provider's row by exactly 1, other rows
  staying as they are; saving an existing appointment leaves every provider's row
  unchanged.
\<close>

theorem new_appointment_increments_counter_once:
  assumes pk: "distinct (map provider_pk (providers st))"
    and row: "provider \<in> set (providers st)"
    and svc: "list_ex (\<lambda>r. service_pk r = service_id) (services st)"
  shows "(\<exists>a st'. objects_create st provider service_id d t s = Inr (a, st')
            \<and> appointments st' = appointments st @ [a]
            \<and> providers st' =
                map (\<lambda>r. if provider_pk r = provider_pk provider
                         then r\<lparr>appointments_this_month := appointments_this_month r + 1\<rparr>
                         else r) (providers st))
         \<and> (\<forall>x st''. save_status st x = Inr st'' \<longrightarrow> providers st'' = providers st)"
proof (intro conjI allI impI)
  have ex: "list_ex (\<lambda>r. provider_pk r = provider_pk provider) (providers st)"
    using row by (auto simp: list_ex_iff)
  have "map (\<lambda>r. if provider_pk r = provider_pk provider
                  then r\<lparr>appointments_this_month := appointments_this_month provider + 1\<rparr>
                  else r) (providers st)
        = map (\<lambda>r. if provider_pk r = provider_pk provider
                  then r\<lparr>appointments_this_month := appointments_this_month r + 1\<rparr>
                  else r) (providers st)"
    using same_pk_same_row [OF pk row] by auto
  then show "\<exists>a st'. objects_create st provider service_id d t s = Inr (a, st')
            \<and> appointments st' = appointments st @ [a]
            \<and> providers st' =
                map (\<lambda>r. if provider_pk r = provider_pk provider
                         then r\<lparr>appointments_this_month := appointments_this_month r + 1\<rparr>
                         else r) (providers st)"
    by (simp add: objects_create_Inr [OF svc ex])
next
  fix x st''
  assume "save_status st x = Inr st''"
  then show "providers st'' = providers st" by (rule save_status_providers)
qed

theorem new_appointment_example:
  "distinct (map provider_pk (providers ex_store))
   \<and> ex_salon \<in> set (providers ex_store)
   \<and> (\<exists>a st'. objects_create ex_store ex_salon 1 ex_monday (hm 10 0) pending = Inr (a, st')
         \<and> map appointments_this_month (providers st') = [6, 5])"
proof -
  have pk: "distinct (map provider_pk (providers ex_store))" by code_simp
  have row: "ex_salon \<in> set (providers ex_store)" by (simp add: ex_store_def)
  have svc: "list_ex (\<lambda>r. service_pk r = 1) (services ex_store)" by code_simp
  from new_appointment_increments_counter_once [OF pk row svc, of ex_monday "hm 10 0" pending]
  obtain a st' where
    created: "objects_create ex_store ex_salon 1 ex_monday (hm 10 0) pending = Inr (a, st')"
    and rows: "providers st' =
       map (\<lambda>r. if provider_pk r = provider_pk ex_salon
                then r\<lparr>appointments_this_month := appointments_this_month r + 1\<rparr>
                else r) (providers ex_store)"
    by blast
  from rows have counts: "map appointments_this_month (providers st') = [6, 5]"
    by (simp add: ex_store_def ex_salon_def ex_closed_def)
  from created counts
  have "\<exists>a st'. objects_create ex_store ex_salon 1 ex_monday (hm 10 0) pending = Inr (a, st')
         \<and> map appointments_this_month (providers st') = [6, 5]"
    by (intro exI conjI)
  with pk row show ?thesis by (intro conjI)
qed

text \<open>
  Both booking views hand \<open>objects_create\<close> a provider they have just loaded, so a
  booking they commit raises that provider's count by 1 as well.
\<close>

lemma get_provider_or_404_row:
  "get_provider_or_404 st slug = Some provider \<Longrightarrow> provider \<in> set (providers st)"
proof -
  assume "get_provider_or_404 st slug = Some provider"
  then have "filter (\<lambda>r. unique_booking_url r = slug \<and> is_active r) (providers st) = [provider]"
    by (auto simp: get_provider_or_404_def split: list.splits)
  then have "provider \<in> set (filter (\<lambda>r. unique_booking_url r = slug \<and> is_active r) (providers st))"
    by simp
  then show ?thesis by simp
qed

lemma objects_create_counter:
  assumes pk: "distinct (map provider_pk (providers st))"
    and row: "provider \<in> set (providers st)"
    and c: "objects_create st provider service_id d t s = Inr (a, st')"
  shows "providers st' =
           map (\<lambda>r. if provider_pk r = provider_pk provider
                    then r\<lparr>appointments_this_month := appointments_this_month r + 1\<rparr>
                    else r) (providers st)"
proof -
  from objects_create_cases [OF c] have
    svc: "list_ex (\<lambda>r. service_pk r = service_id) (services st)" and
    ex: "list_ex (\<lambda>r. provider_pk r = provider_pk provider) (providers st)" by simp_all
  from c have "providers st' =
     map (\<lambda>r. if provider_pk r = provider_pk provider
              then r\<lparr>appointments_this_month := appointments_this_month provider + 1\<rparr>
              else r) (providers st)"
    unfolding objects_create_Inr [OF svc ex] by auto
  also have "\<dots> = map (\<lambda>r. if provider_pk r = provider_pk provider
                    then r\<lparr>appointments_this_month := appointments_this_month r + 1\<rparr>
                    else r) (providers st)"
    using same_pk_same_row [OF pk row] by auto
  finally show ?thesis .
qed

lemma confirm_booking_counter:
  assumes pk: "distinct (map provider_pk (providers st))"
    and ok: "confirm_booking st clock req slug = (RedirectBookingSuccess k, st')"
  shows "\<exists>provider. get_provider_or_404 st slug = Some provider
           \<and> providers st' =
               map (\<lambda>r. if provider_pk r = provider_pk provider
                        then r\<lparr>appointments_this_month := appointments_this_month r + 1\<rparr>
                        else r) (providers st)"
proof -
  from ok obtain provider a where
    p: "get_provider_or_404 st slug = Some provider" and
    c: "objects_create st provider (post_service req) (post_appointment_date req)
          (post_appointment_time req) pending = Inr (a, st')"
    by (auto simp: confirm_booking_def split: option.splits if_splits sum.splits)
  from objects_create_counter [OF pk get_provider_or_404_row [OF p] c] p
  show ?thesis by blast
qed

lemma create_appointment_counter:
  assumes pk: "distinct (map provider_pk (providers st))"
    and ok: "create_appointment st clock req = (RedirectAppointmentDetail k, st')"
  shows "\<exists>provider \<in> set (providers st).
           providers st' =
               map (\<lambda>r. if provider_pk r = provider_pk provider
                        then r\<lparr>appointments_this_month := appointments_this_month r + 1\<rparr>
                        else r) (providers st)"
proof -
  from ok obtain provider a n where
    p: "find (\<lambda>r. provider_pk r = n) (providers st) = Some provider" and
    c: "objects_create st provider (post_service req) (post_appointment_date req)
          (post_appointment_time req) confirmed = Inr (a, st')"
    by (auto simp: create_appointment_def split: option.splits if_splits sum.splits)
  from p have row: "provider \<in> set (providers st)"
    by (auto simp: find_Some_iff)
  from objects_create_counter [OF pk row c] row
  show ?thesis by blast
qed

section \<open>Properties of the monthly reset\<close>


lemma reset_row_simps [simp]:
  "provider_pk (reset_row clock r) = provider_pk r"
  "is_active (reset_row clock r) = is_active r"
  "appointments_this_month (reset_row clock r) = 0"
  "last_reset_date (reset_row clock r) = date_of clock"
  "reset_row clock (reset_row clock r) = reset_row clock r"
  by (simp_all add: reset_row_def)






section \<open>Service hours, the quota and double booking\<close>

text \<open>
  The hours of \<open>get_available_slots\<close> come from the provider's \<open>Availability\<close> rows
  alone: the \<open>ServiceAvailability\<close> table is never read.
\<close>

lemma slot_is_booked_service_availabilities:
  "slot_is_booked (st\<lparr>service_availabilities := sa\<rparr>) provider d t = slot_is_booked st provider d t"
  by (simp add: slot_is_booked_def)

lemma get_available_slots_ignores_service_availabilities:
  "get_available_slots (st\<lparr>service_availabilities := sa\<rparr>) clock provider svc d buffer_minutes
     = get_available_slots st clock provider svc d buffer_minutes"
proof -
  have row: "availability_slots_get (st\<lparr>service_availabilities := sa\<rparr>) provider (weekday d)
               = availability_slots_get st provider (weekday d)"
    by (simp add: availability_slots_get_def)
  have slot: "make_slot (st\<lparr>service_availabilities := sa\<rparr>) provider d clock
                = make_slot st provider d clock"
    by (rule ext) (simp add: make_slot_def slot_is_booked_service_availabilities)
  show ?thesis
    by (simp add: get_available_slots_def Let_def row slot_loop_candidates slot
             split: option.split)
qed

text \<open>
  Claim C3 says that a \<open>ServiceAvailability\<close> row for the service and the day replaces
  the provider's hours in slot generation. The code does not do so: with provider hours
  09:00 to 18:00 on Tuesday and service hours 10:00 to 14:00 for the 60-minute service,
  the slots run from 09:00 to 17:00.
\<close>

theorem service_override_ignored_on_tuesday:
  "filter (\<lambda>r. sa_service r = service_pk ex_service \<and> sa_day_of_week r = weekday ex_tuesday)
          (service_availabilities ex_store)
     = [\<lparr>sa_service = 1, sa_day_of_week = 1, sa_start_time = hm 10 0, sa_end_time = hm 14 0,
         sa_is_available = True\<rparr>]
   \<and> map slot_time_str (get_available_slots ex_store ex_clock ex_salon ex_service ex_tuesday 15) =
       [''09:00'', ''09:30'', ''10:00'', ''10:30'', ''11:00'', ''11:30'', ''12:00'', ''12:30'',
        ''13:00'', ''13:30'', ''14:00'', ''14:30'', ''15:00'', ''15:30'', ''16:00'', ''16:30'',
        ''17:00'']"
  by code_simp

text \<open>The provider's walk-in view turns a provider away whose quota is used up.\<close>

lemma create_appointment_at_quota:
  assumes "req_user req = Some u" "user_is_provider u" "user_provider_profile u = Some pk"
    and "find (\<lambda>r. provider_pk r = pk) (providers st) = Some provider"
    and "\<not> can_create_appointment clock provider"
  shows "create_appointment st clock req = (RedirectUpgradePrompt, st)"
  using assms by (simp add: create_appointment_def)

text \<open>
  Claim C2 says that every booking for a FREE provider that has reached 5 appointments
  is rejected on every path. The public \<open>confirm_booking\<close> does not ask: for the salon at
  5 of 5 it creates appointment 1 and the count becomes 6, while the provider's own
  \<open>create_appointment\<close> answers the same state with the upgrade prompt.
\<close>

theorem confirm_booking_admits_beyond_quota:
  "get_provider_or_404 ex_store ''salon'' = Some ex_salon
   \<and> current_plan ex_salon = free
   \<and> appointments_this_month ex_salon = FREE_PLAN_APPOINTMENT_LIMIT
   \<and> \<not> can_create_appointment ex_clock ex_salon
   \<and> confirm_booking ex_store ex_clock ex_request ''salon'' =
       (RedirectBookingSuccess 1,
        ex_store\<lparr>providers := [ex_salon\<lparr>appointments_this_month := 6\<rparr>, ex_closed],
                 appointments := [\<lparr>appointment_pk = 1, service_provider = 1, service = 1,
                                   appointment_date = ex_monday, appointment_time = hm 10 0,
                                   status = pending\<rparr>]\<rparr>)
   \<and> create_appointment ex_store ex_clock ex_owner_request = (RedirectUpgradePrompt, ex_store)"
  by code_simp





lemma ex_rebooked_store_reached:
  "handle ex_booked_store ex_clock = Inr (1, ex_rebooked_store)"
  by code_simp


end
